theory Spec2Isabelle
  imports Complex_Main
begin

section \<open>The run controller of \<open>statics/script.js\<close>\<close>

text \<open>
  The script is one closure over a handful of variables and DOM elements; every function
  of it is an event handler or is called from one. The embedding keeps the variables and
  the parts of the DOM that the handlers read or write as one record, and turns every
  handler into a function from state to state. Calls that leave the page
  (\<open>new WebSocket\<close>, \<open>close\<close>, \<open>fetch\<close>, \<open>showNotification\<close>, navigation) are appended to
  a trace, in the order in which the script issues them.

  Left out: output to the console, and purely cosmetic style properties (transforms,
  colours). A toast notification is one trace entry; the toast's own element and its
  animation timers touch nothing else.
\<close>

subsection \<open>Strings\<close>

text \<open>
  The value of the location field is text the user types, and the script trims and
  lower-cases it: it is a JavaScript string, a sequence of UTF-16 code units, each a
  number from 0 to 65535. Every other string of the script is only passed on or compared
  as a whole and is kept as a \<open>string\<close>. \<open>ascii\<close> gives the code units of a literal
  of the script.
\<close>

type_synonym jsstring = "int list"

definition ascii :: "string \<Rightarrow> jsstring" where
  "ascii s = map of_char s"

text \<open>
  \<open>String.prototype.trim\<close> removes white space and line terminators from both ends:
  TAB, VT, FF, SP, NBSP, ZWNBSP and the other space separators (U+1680, U+2000 to U+200A,
  U+202F, U+205F, U+3000), and LF, CR, LS, PS.
\<close>

definition isWhiteSpace :: "int \<Rightarrow> bool" where
  "isWhiteSpace c =
     (c \<in> set [0x0009, 0x000B, 0x000C, 0x0020, 0x00A0, 0xFEFF, 0x1680, 0x202F, 0x205F, 0x3000]
      \<or> (0x2000 \<le> c \<and> c \<le> 0x200A))"

definition isLineTerminator :: "int \<Rightarrow> bool" where
  "isLineTerminator c = (c \<in> set [0x000A, 0x000D, 0x2028, 0x2029])"

definition trimmed :: "int \<Rightarrow> bool" where
  "trimmed c = (isWhiteSpace c \<or> isLineTerminator c)"

definition trim :: "jsstring \<Rightarrow> jsstring" where
  "trim s = rev (dropWhile trimmed (rev (dropWhile trimmed s)))"

text \<open>
  \<open>toLowerCase\<close> maps the letters A to Z to a to z. The Unicode mapping of the other
  characters is not modelled, and they are left as they are. The script uses the result
  only to compare it with \<open>narayanganj\<close>; no character other than A to Z is mapped to
  a letter of that word, so the comparison comes out as in the script for every string.
\<close>

definition lowerChar :: "int \<Rightarrow> int" where
  "lowerChar c = (if 0x41 \<le> c \<and> c \<le> 0x5A then c + 0x20 else c)"

definition toLowerCase :: "jsstring \<Rightarrow> jsstring" where
  "toLowerCase s = map lowerChar s"

definition digitChar :: "nat \<Rightarrow> char" where
  "digitChar d = ''0123456789'' ! d"

fun decimal :: "nat \<Rightarrow> string" where
  "decimal n = (if n < 10 then [digitChar n] else decimal (n div 10) @ [digitChar (n mod 10)])"

declare decimal.simps [simp del]

subsection \<open>Numbers of progress events\<close>

text \<open>
  The counters of a progress event are JSON numbers; the parser turns each into a binary64
  value, which is a rational number and is kept as that. The percentage
  \<open>(current / total) * 100\<close> is binary64 arithmetic, and its decimal text is handed to
  the style parser as the width of the bar; neither is modelled. The bar records the
  counters and the message from which its width and its text are made.
\<close>

subsection \<open>Data\<close>

datatype mode = Analysis | Results

datatype listener = RunAnalysis | ShowResults

datatype readyState = OPEN | CLOSING | CLOSED

datatype callback = ConnectWebSocket | RestoreSelectAllScale

datatype jserror = TypeError

record checkbox =
  cbValue :: string
  cbChecked :: bool
  cbDisabled :: bool

text \<open>A parsed channel message: the \<open>type\<close> discriminator and the fields the handlers read.\<close>

record message =
  mType :: string
  mMessage :: string
  mCurrent :: rat
  mTotal :: rat
  mCompleted :: "string list"

text \<open>One \<open>div.progress-item\<close>: its class, and the icon, text and time of its inner HTML.\<close>

record progressItem =
  piClass :: string
  piIcon :: string
  piText :: string
  piTime :: string

record progressBar =
  pbMessage :: string
  pbCurrent :: rat
  pbTotal :: rat

datatype effect =
    WsOpen string
  | WsClose nat
  | Fetch jsstring "string list" string
  | Notify string string
  | Navigate string

text \<open>
  Elements created by \<open>showAnalysisProgress\<close> live in \<open>items\<close>; a reference to one
  is its index there. \<open>progressContainer\<close> is the list of children of the container
  while it is in the document, \<open>currentProgressItem\<close> the reference the controller
  holds (\<open>None\<close> is \<open>undefined\<close>). WebSocket objects live in \<open>sockets\<close> in the same
  way; \<open>websocket\<close> is the handle the controller holds (\<open>None\<close> is \<open>null\<close>).
\<close>

record state =
  isAnalyzing :: bool
  allSelected :: bool
  websocket :: "nat option"
  sessionId :: string
  analysisResults :: "string list"
  buttonMode :: mode
  currentProgressItem :: "nat option"
  pageProtocol :: string
  pageHost :: string
  locationValue :: jsstring
  locationDisabled :: bool
  checkboxes :: "checkbox list"
  selectAllDisabled :: bool
  runDisabled :: bool
  runTitle :: string
  runResultsReady :: bool
  runListeners :: "listener list"
  btnText :: string
  btnTextDisplay :: string
  btnLoadingDisplay :: string
  statusHtml :: string
  statusSuccess :: bool
  statusDisplay :: string
  items :: "progressItem list"
  progressContainer :: "nat list option"
  analysisProgressBar :: "progressBar option"
  sockets :: "readyState list"
  timers :: "(callback \<times> nat) list"
  awaitingFetch :: nat
  awaitingJson :: nat
  effects :: "effect list"

text \<open>
  What the page supplies when the script starts: its scheme and host, the markup's
  location value and checkboxes, and the two values \<open>generateSessionId\<close> reads from
  the environment (\<open>Date.now()\<close>, and the base-36 fragment cut from \<open>Math.random()\<close>).
\<close>

record page =
  pProtocol :: string
  pHost :: string
  pLocation :: jsstring
  pCheckboxes :: "checkbox list"
  pNow :: nat
  pRandom :: string

datatype fetchResult = Rejected string | Response nat

datatype event =
    TypeLocation jsstring
  | ChangeCheckbox nat
  | ClickSelectAll
  | ClickRun
  | KeyCtrlEnter
  | KeyCtrlA bool
  | WsMessage nat message string
  | WsClosed nat
  | FetchSettled fetchResult
  | JsonSettled "string option"
  | TimerFired nat

text \<open>The states of the specification, read off the two variables that encode them.\<close>

datatype controller = Idle | Running | ResultsReady

definition controllerState :: "state \<Rightarrow> controller" where
  "controllerState s =
     (if isAnalyzing s then Running else if buttonMode s = Results then ResultsReady else Idle)"

subsection \<open>DOM helpers\<close>

definition addEventListener :: "listener \<Rightarrow> listener list \<Rightarrow> listener list" where
  "addEventListener l ls = (if l \<in> set ls then ls else ls @ [l])"

definition removeEventListener :: "listener \<Rightarrow> listener list \<Rightarrow> listener list" where
  "removeEventListener l ls = removeAll l ls"

text \<open>\<open>close()\<close> on a socket: an open one starts closing, otherwise nothing happens.\<close>

definition closeSocket :: "nat \<Rightarrow> readyState list \<Rightarrow> readyState list" where
  "closeSocket h ss = (if h < length ss \<and> ss ! h = OPEN then ss[h := CLOSING] else ss)"

definition showNotification :: "string \<Rightarrow> string \<Rightarrow> state \<Rightarrow> state" where
  "showNotification msg ty s = s\<lparr>effects := effects s @ [Notify msg ty]\<rparr>"

subsection \<open>The functions of the script\<close>

definition generateSessionId :: "nat \<Rightarrow> string \<Rightarrow> string" where
  "generateSessionId now rnd = ''session_'' @ decimal now @ ''_'' @ rnd"

text \<open>The local constant \<open>wsUrl\<close> of \<open>connectWebSocket\<close>.\<close>

definition wsUrl :: "state \<Rightarrow> string" where
  "wsUrl s =
     (let protocol = (if pageProtocol s = ''https:'' then ''wss:'' else ''ws:'')
      in protocol @ ''//'' @ pageHost s @ ''/ws/'' @ sessionId s)"

definition connectWebSocket :: "state \<Rightarrow> state" where
  "connectWebSocket s =
     s\<lparr>websocket := Some (length (sockets s)),
       sockets := sockets s @ [OPEN],
       effects := effects s @ [WsOpen (wsUrl s)]\<rparr>"

definition onclose :: "state \<Rightarrow> state" where
  "onclose s = (if isAnalyzing s then s\<lparr>timers := timers s @ [(ConnectWebSocket, 2000)]\<rparr> else s)"

definition getProgressIcon :: "string \<Rightarrow> string" where
  "getProgressIcon ty =
     (if ty = ''success'' then ''check''
      else if ty = ''error'' then ''times''
      else if ty = ''info'' then ''spinner fa-spin''
      else ''info-circle'')"

definition createProgressContainer :: "state \<Rightarrow> state" where
  "createProgressContainer s = s\<lparr>progressContainer := Some []\<rparr>"

definition newProgressItem :: "string \<Rightarrow> string \<Rightarrow> string \<Rightarrow> progressItem" where
  "newProgressItem msg ty now =
     \<lparr>piClass = ''progress-item progress-'' @ ty, piIcon = getProgressIcon ty,
      piText = msg, piTime = now\<rparr>"

definition showAnalysisProgress :: "string \<Rightarrow> string \<Rightarrow> string \<Rightarrow> state \<Rightarrow> nat \<times> state" where
  "showAnalysisProgress msg ty now s =
     (let s1 = (case progressContainer s of Some c \<Rightarrow> s | None \<Rightarrow> createProgressContainer s);
          r = length (items s1)
      in (r, s1\<lparr>items := items s1 @ [newProgressItem msg ty now],
                progressContainer := map_option (\<lambda>c. c @ [r]) (progressContainer s1)\<rparr>))"

definition markProgressAsCompleted :: "string \<Rightarrow> nat option \<Rightarrow> string \<Rightarrow> state \<Rightarrow> jserror + state" where
  "markProgressAsCompleted msg progressItem now s =
     (case progressItem of
        None \<Rightarrow> Inl TypeError
      | Some r \<Rightarrow>
          Inr (s\<lparr>items := (items s)[r := (items s ! r)
                 \<lparr>piIcon := getProgressIcon ''success'', piText := msg, piTime := now\<rparr>]\<rparr>))"

text \<open>
  A missing bar is created first; width and text are then written in either case, from
  the arguments alone.
\<close>

definition updateProgressBar :: "rat \<Rightarrow> rat \<Rightarrow> string \<Rightarrow> state \<Rightarrow> state" where
  "updateProgressBar current total' msg s =
     s\<lparr>analysisProgressBar :=
         Some \<lparr>pbMessage = msg, pbCurrent = current, pbTotal = total'\<rparr>\<rparr>"

definition updateSelectAllButton :: "state \<Rightarrow> state" where
  "updateSelectAllButton s =
     (let checkedCount = length (filter cbChecked (checkboxes s));
          totalCount = length (checkboxes s)
      in s\<lparr>allSelected := (checkedCount = totalCount)\<rparr>)"

definition updateRunAnalysisButton :: "state \<Rightarrow> state" where
  "updateRunAnalysisButton s =
     (if isAnalyzing s then s
      else
        let hasLocation = (0 < length (trim (locationValue s)));
            hasSelectedAnalysis = list_ex cbChecked (checkboxes s);
            canRun = (hasLocation \<and> hasSelectedAnalysis)
        in s\<lparr>runDisabled := \<not> canRun,
              runTitle :=
                (if \<not> hasLocation \<and> \<not> hasSelectedAnalysis
                 then ''Please enter a location and select at least one analysis option''
                 else if \<not> hasLocation then ''Please enter a location''
                 else if \<not> hasSelectedAnalysis then ''Please select at least one analysis option''
                 else [])\<rparr>)"

definition toggleSelectAll :: "state \<Rightarrow> state" where
  "toggleSelectAll s =
     (if isAnalyzing s then s
      else
        let a = (\<not> allSelected s);
            s1 = s\<lparr>allSelected := a,
                   checkboxes := map (\<lambda>cb. cb\<lparr>cbChecked := a\<rparr>) (checkboxes s)\<rparr>;
            s2 = updateRunAnalysisButton (updateSelectAllButton s1)
        in s2\<lparr>timers := timers s2 @ [(RestoreSelectAllScale, 150)]\<rparr>)"

text \<open>The block \<open>if (websocket) { websocket.close(); websocket = null; }\<close>.\<close>

definition closeWebSocket :: "state \<Rightarrow> state" where
  "closeWebSocket s =
     (case websocket s of
        None \<Rightarrow> s
      | Some h \<Rightarrow> s\<lparr>sockets := closeSocket h (sockets s), websocket := None,
                     effects := effects s @ [WsClose h]\<rparr>)"

definition handleAnalysisComplete :: "message \<Rightarrow> state \<Rightarrow> state" where
  "handleAnalysisComplete m s =
     (let s1 = closeWebSocket
                 (s\<lparr>isAnalyzing := False, analysisResults := mCompleted m, buttonMode := Results\<rparr>);
          s2 = s1\<lparr>btnTextDisplay := ''flex'', btnLoadingDisplay := ''none'',
                  btnText := ''View Results'',
                  runListeners := addEventListener ShowResults
                                    (removeEventListener RunAnalysis (runListeners s1)),
                  runDisabled := False, runResultsReady := True,
                  statusHtml := ''Analysis complete! '' @ decimal (length (mCompleted m))
                                  @ '' results ready to view.'',
                  statusSuccess := True, statusDisplay := ''flex'',
                  locationDisabled := False, selectAllDisabled := False,
                  checkboxes := map (\<lambda>cb. cb\<lparr>cbDisabled := False\<rparr>) (checkboxes s1)\<rparr>
      in showNotification (mMessage m) ''success'' s2)"

definition resetForm :: "state \<Rightarrow> state" where
  "resetForm s =
     (let s1 = closeWebSocket (s\<lparr>isAnalyzing := False, buttonMode := Analysis\<rparr>);
          s2 = s1\<lparr>btnText := ''Run Analysis'', btnTextDisplay := ''flex'',
                  btnLoadingDisplay := ''none'',
                  runListeners := addEventListener RunAnalysis
                                    (removeEventListener ShowResults (runListeners s1)),
                  runDisabled := False, runResultsReady := False,
                  statusDisplay := ''none'', statusSuccess := False,
                  locationDisabled := False, selectAllDisabled := False,
                  checkboxes := map (\<lambda>cb. cb\<lparr>cbDisabled := False\<rparr>) (checkboxes s1),
                  progressContainer := None, analysisProgressBar := None\<rparr>
      in updateRunAnalysisButton s2)"

definition handleWebSocketMessage :: "message \<Rightarrow> string \<Rightarrow> state \<Rightarrow> jserror + state" where
  "handleWebSocketMessage m now s =
     (if mType m = ''analysis_start'' then
        (case showAnalysisProgress (mMessage m) ''info'' now s of
           (r, s1) \<Rightarrow> Inr (s1\<lparr>currentProgressItem := Some r\<rparr>))
      else if mType m = ''progress_update'' then
        Inr (updateProgressBar (mCurrent m) (mTotal m) (mMessage m) s)
      else if mType m = ''analysis_complete'' then
        markProgressAsCompleted (mMessage m) (currentProgressItem s) now s
      else if mType m = ''analysis_error'' then
        Inr (snd (showAnalysisProgress (mMessage m) ''error'' now s))
      else if mType m = ''all_analyses_complete'' then
        Inr (handleAnalysisComplete m s)
      else if mType m = ''error'' then
        Inr (resetForm (showNotification (mMessage m) ''error'' s))
      else Inr s)"

text \<open>
  \<open>startAnalysis\<close> is an async function. \<open>startAnalysis\<close> below is its body up to the
  first \<open>await\<close>, which runs inside the caller; \<open>startAnalysisFetched\<close> resumes it when
  the \<open>fetch\<close> promise settles, \<open>startAnalysisParsed\<close> when \<open>response.json()\<close> does;
  \<open>startAnalysisCatch\<close> is the \<open>catch\<close> block, with \<open>error.message\<close> as argument.
\<close>

definition startAnalysis :: "string list \<Rightarrow> state \<Rightarrow> state" where
  "startAnalysis selectedAnalysis s =
     (let s1 = connectWebSocket (s\<lparr>isAnalyzing := True\<rparr>);
          s2 = s1\<lparr>btnTextDisplay := ''none'', btnLoadingDisplay := ''flex'',
                  runDisabled := True, runResultsReady := False,
                  statusHtml := ''The analysis may take a while. Hold tight...'',
                  statusSuccess := False, statusDisplay := ''flex'',
                  locationDisabled := True, selectAllDisabled := True,
                  checkboxes := map (\<lambda>cb. cb\<lparr>cbDisabled := True\<rparr>) (checkboxes s1),
                  progressContainer := None, analysisProgressBar := None\<rparr>
      in s2\<lparr>effects := effects s2 @ [Fetch (trim (locationValue s2)) selectedAnalysis (sessionId s2)],
            awaitingFetch := awaitingFetch s2 + 1\<rparr>)"

definition startAnalysisCatch :: "string \<Rightarrow> state \<Rightarrow> state" where
  "startAnalysisCatch reason s =
     resetForm (showNotification (''Error starting analysis: '' @ reason) ''error'' s)"

definition startAnalysisFetched :: "fetchResult \<Rightarrow> state \<Rightarrow> state" where
  "startAnalysisFetched r s =
     (case r of
        Rejected reason \<Rightarrow> startAnalysisCatch reason s
      | Response status \<Rightarrow>
          if \<not> (200 \<le> status \<and> status \<le> 299)
          then startAnalysisCatch (''HTTP error! status: '' @ decimal status) s
          else s\<lparr>awaitingJson := awaitingJson s + 1\<rparr>)"

definition startAnalysisParsed :: "string option \<Rightarrow> state \<Rightarrow> state" where
  "startAnalysisParsed r s = (case r of None \<Rightarrow> s | Some reason \<Rightarrow> startAnalysisCatch reason s)"

definition runAnalysis :: "state \<Rightarrow> state" where
  "runAnalysis s =
     (if isAnalyzing s \<or> buttonMode s = Results then s
      else
        let location = trim (locationValue s);
            selectedAnalysis = map cbValue (filter cbChecked (checkboxes s))
        in if location = [] \<or> length selectedAnalysis = 0
           then showNotification
                  ''Please enter a location and select at least one analysis option'' ''error'' s
           else
             let s1 = (if toLowerCase location \<noteq> ascii ''narayanganj''
                       then (showNotification
                               ''Currently, only Narayanganj is supported as a location''
                               ''warning'' s)\<lparr>locationValue := ascii ''Narayanganj''\<rparr>
                       else s)
             in startAnalysis selectedAnalysis s1)"

text \<open>The address \<open>showResults\<close> assigns to \<open>window.location.href\<close>.\<close>

definition resultsUrl :: "state \<Rightarrow> string" where
  "resultsUrl s = ''/results-viewer?session='' @ sessionId s"

definition showResults :: "state \<Rightarrow> state" where
  "showResults s = s\<lparr>effects := effects s @ [Navigate (resultsUrl s)]\<rparr>"

subsection \<open>Page load and the event loop\<close>

definition init :: "page \<Rightarrow> state" where
  "init p =
     (let s0 = \<lparr>isAnalyzing = False, allSelected = False, websocket = None,
                sessionId = generateSessionId (pNow p) (pRandom p),
                analysisResults = [], buttonMode = Analysis, currentProgressItem = None,
                pageProtocol = pProtocol p, pageHost = pHost p,
                locationValue = pLocation p, locationDisabled = False,
                checkboxes = pCheckboxes p, selectAllDisabled = False,
                runDisabled = False, runTitle = [], runResultsReady = False,
                runListeners = [], btnText = [], btnTextDisplay = [],
                btnLoadingDisplay = [], statusHtml = [], statusSuccess = False,
                statusDisplay = [], items = [], progressContainer = None,
                analysisProgressBar = None, sockets = [], timers = [],
                awaitingFetch = 0, awaitingJson = 0, effects = []\<rparr>;
          s1 = updateRunAnalysisButton (updateSelectAllButton s0);
          s2 = s1\<lparr>locationValue := ascii ''Narayanganj''\<rparr>
      in s2\<lparr>runListeners := addEventListener RunAnalysis (runListeners s2)\<rparr>)"

definition callListener :: "listener \<Rightarrow> state \<Rightarrow> state" where
  "callListener l s = (case l of RunAnalysis \<Rightarrow> runAnalysis s | ShowResults \<Rightarrow> showResults s)"

definition runCallback :: "callback \<Rightarrow> state \<Rightarrow> state" where
  "runCallback c s = (case c of ConnectWebSocket \<Rightarrow> connectWebSocket s | RestoreSelectAllScale \<Rightarrow> s)"

text \<open>
  One turn of the event loop: the browser delivers an event and the registered handler
  runs to completion. An exception that leaves \<open>onmessage\<close> ends that turn; it is
  raised before anything was written, so the state is the one before.
\<close>

definition fire :: "event \<Rightarrow> state \<Rightarrow> state" where
  "fire e s =
     (case e of
        TypeLocation v \<Rightarrow> updateRunAnalysisButton (s\<lparr>locationValue := v\<rparr>)
      | ChangeCheckbox i \<Rightarrow>
          updateRunAnalysisButton (updateSelectAllButton
            (s\<lparr>checkboxes := (checkboxes s)
                 [i := (checkboxes s ! i)\<lparr>cbChecked := \<not> cbChecked (checkboxes s ! i)\<rparr>]\<rparr>))
      | ClickSelectAll \<Rightarrow> toggleSelectAll s
      | ClickRun \<Rightarrow> fold callListener (runListeners s) s
      | KeyCtrlEnter \<Rightarrow>
          if \<not> runDisabled s \<and> \<not> isAnalyzing s
          then (if buttonMode s = Results then showResults s else runAnalysis s)
          else s
      | KeyCtrlA inLocation \<Rightarrow>
          if \<not> inLocation then (if \<not> isAnalyzing s then toggleSelectAll s else s) else s
      | WsMessage h m now \<Rightarrow>
          (case handleWebSocketMessage m now s of Inl err \<Rightarrow> s | Inr s1 \<Rightarrow> s1)
      | WsClosed h \<Rightarrow> onclose (s\<lparr>sockets := (sockets s)[h := CLOSED]\<rparr>)
      | FetchSettled r \<Rightarrow> startAnalysisFetched r (s\<lparr>awaitingFetch := awaitingFetch s - 1\<rparr>)
      | JsonSettled r \<Rightarrow> startAnalysisParsed r (s\<lparr>awaitingJson := awaitingJson s - 1\<rparr>)
      | TimerFired i \<Rightarrow>
          runCallback (fst (timers s ! i)) (s\<lparr>timers := take i (timers s) @ drop (Suc i) (timers s)\<rparr>))"

text \<open>
  What the browser can deliver in a state: input only to enabled controls, messages only
  from an open socket, one close event per socket, settlements only of pending promises,
  and only timers that are pending.
\<close>

definition enabled :: "state \<Rightarrow> event \<Rightarrow> bool" where
  "enabled s e =
     (case e of
        TypeLocation v \<Rightarrow> \<not> locationDisabled s
      | ChangeCheckbox i \<Rightarrow> i < length (checkboxes s) \<and> \<not> cbDisabled (checkboxes s ! i)
      | ClickSelectAll \<Rightarrow> \<not> selectAllDisabled s
      | ClickRun \<Rightarrow> \<not> runDisabled s
      | KeyCtrlEnter \<Rightarrow> True
      | KeyCtrlA inLocation \<Rightarrow> True
      | WsMessage h m now \<Rightarrow> h < length (sockets s) \<and> sockets s ! h = OPEN
      | WsClosed h \<Rightarrow> h < length (sockets s) \<and> sockets s ! h \<noteq> CLOSED
      | FetchSettled r \<Rightarrow> 0 < awaitingFetch s
      | JsonSettled r \<Rightarrow> 0 < awaitingJson s
      | TimerFired i \<Rightarrow> i < length (timers s))"

fun run :: "state \<Rightarrow> event list \<Rightarrow> state option" where
  "run s [] = Some s"
| "run s (e # es) = (if enabled s e then run (fire e s) es else None)"

subsection \<open>Notions used to state the properties\<close>

text \<open>The session identifiers that left the page in submission calls, in order.\<close>

fun submittedSessions :: "effect list \<Rightarrow> string list" where
  "submittedSessions [] = []"
| "submittedSessions (Fetch l a sid # es) = sid # submittedSessions es"
| "submittedSessions (e # es) = submittedSessions es"

definition sessionsOf :: "state \<Rightarrow> string list" where
  "sessionsOf s = submittedSessions (effects s)"

text \<open>
  A call that leaves the page carries the session identifier of \<open>s\<close>: a channel is
  opened at the address built from it, a submission has it in its body, a navigation goes
  to the results address built from it.
\<close>

fun taggedWith :: "state \<Rightarrow> effect \<Rightarrow> bool" where
  "taggedWith s (WsOpen u) = (u = wsUrl s)"
| "taggedWith s (Fetch l a sid) = (sid = sessionId s)"
| "taggedWith s (Navigate u) = (u = resultsUrl s)"
| "taggedWith s e = True"

definition allTagged :: "state \<Rightarrow> bool" where
  "allTagged s = list_all (taggedWith s) (effects s)"





fun isStartEvent :: "event \<Rightarrow> bool" where
  "isStartEvent (WsMessage h m now) = (mType m = ''analysis_start'')"
| "isStartEvent e = False"






subsection \<open>Invariants\<close>


text \<open>Two states of the same page load: same session identifier, same page address.\<close>

definition samePage :: "state \<Rightarrow> state \<Rightarrow> bool" where
  "samePage s t =
     (sessionId t = sessionId s \<and> pageProtocol t = pageProtocol s \<and> pageHost t = pageHost s)"



subsection \<open>Concrete inputs\<close>

text \<open>A page with one analysis kind, served over plain HTTP.\<close>

definition demoPage :: page where
  "demoPage =
     \<lparr>pProtocol = ''http:'', pHost = ''localhost:8000'', pLocation = [],
      pCheckboxes = [\<lparr>cbValue = ''flood'', cbChecked = False, cbDisabled = False\<rparr>],
      pNow = 17, pRandom = ''k3x9q''\<rparr>"

definition demoMessage :: "string \<Rightarrow> string \<Rightarrow> message" where
  "demoMessage ty msg =
     \<lparr>mType = ty, mMessage = msg, mCurrent = 0, mTotal = 0, mCompleted = []\<rparr>"




text \<open>
  A first run whose submission is answered with status 500, and the same run with the
  channel closing before the answer arrives.
\<close>

definition failedRun :: "event list" where
  "failedRun = [ChangeCheckbox 0, ClickRun, FetchSettled (Response 500)]"

definition closedThenFailedRun :: "event list" where
  "closedThenFailedRun = [ChangeCheckbox 0, ClickRun, WsClosed 0, FetchSettled (Response 500)]"


section \<open>Properties\<close>

subsection \<open>Frame lemmas and invariants\<close>

lemmas handler_defs =
  runAnalysis_def startAnalysis_def connectWebSocket_def showNotification_def
  resetForm_def closeWebSocket_def updateRunAnalysisButton_def updateSelectAllButton_def
  toggleSelectAll_def handleAnalysisComplete_def handleWebSocketMessage_def
  showAnalysisProgress_def createProgressContainer_def markProgressAsCompleted_def
  updateProgressBar_def onclose_def startAnalysisCatch_def startAnalysisFetched_def
  startAnalysisParsed_def showResults_def callListener_def runCallback_def

lemma controllerState_simps:
  "controllerState s = Running \<longleftrightarrow> isAnalyzing s"
  "controllerState s = Idle \<longleftrightarrow> \<not> isAnalyzing s \<and> buttonMode s = Analysis"
  "controllerState s = ResultsReady \<longleftrightarrow> \<not> isAnalyzing s \<and> buttonMode s = Results"
  by (cases "buttonMode s"; simp add: controllerState_def)+

lemma samePage_refl: "samePage s s"
  by (simp add: samePage_def)

lemma samePage_trans: "samePage s t \<Longrightarrow> samePage t u \<Longrightarrow> samePage s u"
  by (simp add: samePage_def)

lemma samePage_callListener: "samePage s (callListener l s)"
  by (cases l) (simp_all add: samePage_def handler_defs Let_def)

lemma samePage_fold: "samePage s (fold callListener ls s)"
proof (induction ls arbitrary: s)
  case Nil
  show ?case by (simp add: samePage_refl)
next
  case (Cons l ls)
  show ?case using samePage_trans [OF samePage_callListener Cons.IH] by simp
qed

lemma samePage_fire: "samePage s (fire e s)"
proof (cases e)
  case ClickRun
  then show ?thesis using samePage_fold by (simp add: fire_def)
next
  case (TimerFired i)
  then show ?thesis
    by (cases "fst (timers s ! i)") (simp_all add: fire_def samePage_def handler_defs)
qed (auto simp add: fire_def samePage_def handler_defs Let_def
       split: option.splits sum.splits fetchResult.splits prod.splits)

lemma samePage_run: "run s es = Some t \<Longrightarrow> samePage s t"
proof (induction es arbitrary: s)
  case Nil
  then show ?case by (simp add: samePage_refl)
next
  case (Cons e es)
  then have "run (fire e s) es = Some t" by (simp split: if_splits)
  then have "samePage (fire e s) t" by (rule Cons.IH)
  with samePage_fire show ?case by (rule samePage_trans)
qed

lemma samePage_wsUrl: "samePage s t \<Longrightarrow> wsUrl t = wsUrl s"
  by (simp add: samePage_def wsUrl_def)

lemma samePage_resultsUrl: "samePage s t \<Longrightarrow> resultsUrl t = resultsUrl s"
  by (simp add: samePage_def resultsUrl_def)




lemma trim_Narayanganj: "trim (ascii ''Narayanganj'') = ascii ''Narayanganj''"
  by (simp add: trim_def trimmed_def isWhiteSpace_def isLineTerminator_def ascii_def)






subsection \<open>Everything that leaves the page carries the one session identifier\<close>

lemma samePage_taggedWith: "samePage s t \<Longrightarrow> taggedWith t e = taggedWith s e"
  by (cases e) (simp_all add: samePage_wsUrl samePage_resultsUrl, simp add: samePage_def)

lemma tagged_callListener:
  "list_all (taggedWith s) (effects s) \<Longrightarrow> list_all (taggedWith s) (effects (callListener l s))"
  by (cases l)
     (auto simp add: handler_defs Let_def wsUrl_def)

lemma tagged_fold:
  "list_all (taggedWith s) (effects s) \<Longrightarrow>
   list_all (taggedWith s) (effects (fold callListener ls s))"
proof (induction ls arbitrary: s)
  case Nil
  then show ?case by simp
next
  case (Cons l ls)
  have sp: "samePage s (callListener l s)" by (rule samePage_callListener)
  from Cons.prems have "list_all (taggedWith s) (effects (callListener l s))"
    by (rule tagged_callListener)
  then have "list_all (taggedWith (callListener l s)) (effects (callListener l s))"
    by (simp add: samePage_taggedWith [OF sp] cong: list.pred_cong)
  then have "list_all (taggedWith (callListener l s)) (effects (fold callListener ls (callListener l s)))"
    by (rule Cons.IH)
  then show ?case
    by (simp add: samePage_taggedWith [OF sp] cong: list.pred_cong)
qed

lemma tagged_fire:
  assumes "list_all (taggedWith s) (effects s)"
  shows "list_all (taggedWith s) (effects (fire e s))"
proof (cases e)
  case ClickRun
  with assms show ?thesis by (simp add: fire_def tagged_fold)
next
  case (TimerFired i)
  with assms show ?thesis
    by (cases "fst (timers s ! i)") (simp_all add: fire_def handler_defs wsUrl_def)
qed (use assms in \<open>auto simp add: fire_def handler_defs Let_def wsUrl_def resultsUrl_def
       split: option.splits sum.splits fetchResult.splits prod.splits\<close>)

lemma tagged_run:
  "list_all (taggedWith s) (effects s) \<Longrightarrow> run s es = Some t \<Longrightarrow>
   list_all (taggedWith s) (effects t)"
proof (induction es arbitrary: s)
  case Nil
  then show ?case by simp
next
  case (Cons e es)
  have sp: "samePage s (fire e s)" by (rule samePage_fire)
  from Cons.prems(2) have r: "run (fire e s) es = Some t" by (simp split: if_splits)
  from Cons.prems(1) have "list_all (taggedWith s) (effects (fire e s))"
    by (rule tagged_fire)
  then have "list_all (taggedWith (fire e s)) (effects (fire e s))"
    by (simp add: samePage_taggedWith [OF sp] cong: list.pred_cong)
  from Cons.IH [OF this r] show ?case
    by (simp add: samePage_taggedWith [OF sp] cong: list.pred_cong)
qed

lemma effects_init: "effects (init p) = []"
  by (simp add: init_def handler_defs Let_def)

lemma tagged_reachable: "run (init p) es = Some t \<Longrightarrow> list_all (taggedWith (init p)) (effects t)"
  by (rule tagged_run) (simp_all add: effects_init)

subsection \<open>Starting a run\<close>

text \<open>
  C3. \<open>runAnalysis\<close> changes nothing unless the controller is Idle. When it is Idle and
  the trimmed location is empty or no analysis kind is checked, the only thing that
  happens is the validation notification: no channel is opened, nothing is submitted,
  and the controller is still Idle.
\<close>

theorem runAnalysis_refuses:
  "(controllerState s \<noteq> Idle \<longrightarrow> runAnalysis s = s) \<and>
   (controllerState s = Idle \<and>
      (trim (locationValue s) = [] \<or> \<not> list_ex cbChecked (checkboxes s)) \<longrightarrow>
      runAnalysis s = s\<lparr>effects := effects s @
        [Notify ''Please enter a location and select at least one analysis option'' ''error'']\<rparr>
      \<and> controllerState (runAnalysis s) = Idle)"
proof (intro conjI impI)
  assume "controllerState s \<noteq> Idle"
  then have "isAnalyzing s \<or> buttonMode s = Results"
    by (cases "buttonMode s") (auto simp: controllerState_def split: if_splits)
  then show "runAnalysis s = s"
    by (auto simp: runAnalysis_def)
next
  assume a: "controllerState s = Idle \<and>
    (trim (locationValue s) = [] \<or> \<not> list_ex cbChecked (checkboxes s))"
  then have idle: "\<not> isAnalyzing s" "buttonMode s = Analysis"
    by (simp_all add: controllerState_simps)
  from a have "trim (locationValue s) = [] \<or> filter cbChecked (checkboxes s) = []"
    by (auto simp: list_ex_iff filter_empty_conv)
  with idle show eq: "runAnalysis s = s\<lparr>effects := effects s @
        [Notify ''Please enter a location and select at least one analysis option'' ''error'']\<rparr>"
    by (auto simp: runAnalysis_def showNotification_def Let_def)
  from idle show "controllerState (runAnalysis s) = Idle"
    unfolding eq by (simp add: controllerState_simps)
qed

theorem runAnalysis_refuses_witness:
  "controllerState (startAnalysis [''flood''] (init demoPage)) \<noteq> Idle
   \<and> runAnalysis (startAnalysis [''flood''] (init demoPage))
       = startAnalysis [''flood''] (init demoPage)
   \<and> controllerState (init demoPage) = Idle
   \<and> \<not> list_ex cbChecked (checkboxes (init demoPage))
   \<and> effects (runAnalysis (init demoPage)) =
       [Notify ''Please enter a location and select at least one analysis option'' ''error'']
   \<and> controllerState (runAnalysis (init demoPage)) = Idle
   \<and> list_ex cbChecked
        (checkboxes (fire (TypeLocation [0xA0, 0x3000]) (fire (ChangeCheckbox 0) (init demoPage))))
   \<and> trim (locationValue
        (fire (TypeLocation [0xA0, 0x3000]) (fire (ChangeCheckbox 0) (init demoPage)))) = []
   \<and> effects (runAnalysis
        (fire (TypeLocation [0xA0, 0x3000]) (fire (ChangeCheckbox 0) (init demoPage)))) =
       [Notify ''Please enter a location and select at least one analysis option'' ''error'']"
proof -
  define b where
    "b = fire (TypeLocation [0xA0, 0x3000]) (fire (ChangeCheckbox 0) (init demoPage))"
  have running: "controllerState (startAnalysis [''flood''] (init demoPage)) \<noteq> Idle"
    by (simp add: controllerState_def startAnalysis_def connectWebSocket_def)
  have idle: "controllerState (init demoPage) = Idle"
    by code_simp
  have none: "\<not> list_ex cbChecked (checkboxes (init demoPage))"
    by code_simp
  have e0: "effects (init demoPage) = []"
    by code_simp
  have bidle: "controllerState b = Idle"
    unfolding b_def by code_simp
  have bsel: "list_ex cbChecked (checkboxes b)"
    unfolding b_def by code_simp
  have bblank: "trim (locationValue b) = []"
    unfolding b_def by code_simp
  have be: "effects b = []"
    unfolding b_def by code_simp
  from runAnalysis_refuses [of "startAnalysis [''flood''] (init demoPage)"] running
  have c1: "runAnalysis (startAnalysis [''flood''] (init demoPage))
              = startAnalysis [''flood''] (init demoPage)"
    by blast
  from runAnalysis_refuses [of "init demoPage"] idle none
  have c2: "runAnalysis (init demoPage) = (init demoPage)\<lparr>effects := effects (init demoPage) @
        [Notify ''Please enter a location and select at least one analysis option'' ''error'']\<rparr>"
    and c3: "controllerState (runAnalysis (init demoPage)) = Idle"
    by blast+
  from c2 e0 have c4: "effects (runAnalysis (init demoPage)) =
       [Notify ''Please enter a location and select at least one analysis option'' ''error'']"
    by simp
  from runAnalysis_refuses [of b] bidle bblank
  have c5: "runAnalysis b = b\<lparr>effects := effects b @
        [Notify ''Please enter a location and select at least one analysis option'' ''error'']\<rparr>"
    by blast
  from c5 be have c6: "effects (runAnalysis b) =
       [Notify ''Please enter a location and select at least one analysis option'' ''error'']"
    by simp
  from running c1 idle none c4 c3 bsel bblank c6 show ?thesis
    unfolding b_def by blast
qed

text \<open>
  C9. From Idle, with a non-empty trimmed location other than the supported one (compared
  without regard to case) and at least one analysis kind checked, \<open>runAnalysis\<close> shows
  the warning, writes \<open>Narayanganj\<close> into the location field, and goes on to submit:
  the channel is opened and the submission call carries the corrected location, the
  checked kinds and the session identifier.
\<close>

theorem unsupported_location_is_corrected:
  assumes "controllerState s = Idle"
    and "trim (locationValue s) \<noteq> []"
    and "list_ex cbChecked (checkboxes s)"
    and "toLowerCase (trim (locationValue s)) \<noteq> ascii ''narayanganj''"
  shows "locationValue (runAnalysis s) = ascii ''Narayanganj''
       \<and> effects (runAnalysis s) = effects s @
           [Notify ''Currently, only Narayanganj is supported as a location'' ''warning'',
            WsOpen (wsUrl s),
            Fetch (ascii ''Narayanganj'') (map cbValue (filter cbChecked (checkboxes s))) (sessionId s)]
       \<and> controllerState (runAnalysis s) = Running"
proof -
  from assms(1) have idle: "\<not> isAnalyzing s" "buttonMode s = Analysis"
    by (simp_all add: controllerState_simps)
  from assms(3) have sel: "filter cbChecked (checkboxes s) \<noteq> []"
    by (auto simp: list_ex_iff filter_empty_conv)
  define s1 where "s1 = (showNotification
      ''Currently, only Narayanganj is supported as a location'' ''warning'' s)
      \<lparr>locationValue := ascii ''Narayanganj''\<rparr>"
  from idle sel assms(2,4)
  have run: "runAnalysis s = startAnalysis (map cbValue (filter cbChecked (checkboxes s))) s1"
    by (simp add: runAnalysis_def Let_def s1_def)
  have url: "wsUrl (s1\<lparr>isAnalyzing := True\<rparr>) = wsUrl s"
    by (simp add: wsUrl_def s1_def showNotification_def)
  show ?thesis
    unfolding run
    by (simp add: startAnalysis_def connectWebSocket_def Let_def url trim_Narayanganj
          controllerState_def)
       (simp add: s1_def showNotification_def trim_Narayanganj)
qed

theorem unsupported_location_is_corrected_witness:
  "controllerState (fire (TypeLocation (0xA0 # ascii ''Dhaka '')) (fire (ChangeCheckbox 0) (init demoPage)))
     = Idle
   \<and> trim (0xA0 # ascii ''Dhaka '') = ascii ''Dhaka''
   \<and> effects (runAnalysis
        (fire (TypeLocation (0xA0 # ascii ''Dhaka '')) (fire (ChangeCheckbox 0) (init demoPage))))
       = [Notify ''Currently, only Narayanganj is supported as a location'' ''warning'',
          WsOpen ''ws://localhost:8000/ws/session_17_k3x9q'',
          Fetch (ascii ''Narayanganj'') [''flood''] ''session_17_k3x9q'']"
proof -
  define s where
    "s = fire (TypeLocation (0xA0 # ascii ''Dhaka '')) (fire (ChangeCheckbox 0) (init demoPage))"
  have tr: "trim (0xA0 # ascii ''Dhaka '') = ascii ''Dhaka''"
    by code_simp
  have lv: "locationValue s = 0xA0 # ascii ''Dhaka ''"
    unfolding s_def by code_simp
  have h1: "controllerState s = Idle"
    unfolding s_def by code_simp
  have h2: "trim (locationValue s) \<noteq> []"
    unfolding s_def by code_simp
  have h3: "list_ex cbChecked (checkboxes s)"
    unfolding s_def by code_simp
  have h4: "toLowerCase (trim (locationValue s)) \<noteq> ascii ''narayanganj''"
    unfolding s_def by code_simp
  have e: "effects s = []" "sessionId s = ''session_17_k3x9q''"
    "wsUrl s = ''ws://localhost:8000/ws/session_17_k3x9q''"
    "map cbValue (filter cbChecked (checkboxes s)) = [''flood'']"
    unfolding s_def by code_simp+
  from unsupported_location_is_corrected [OF h1 h2 h3 h4]
  have "effects (runAnalysis s) = effects s @
      [Notify ''Currently, only Narayanganj is supported as a location'' ''warning'',
       WsOpen (wsUrl s),
       Fetch (ascii ''Narayanganj'') (map cbValue (filter cbChecked (checkboxes s))) (sessionId s)]"
    by (elim conjE)
  with h1 tr show ?thesis
    unfolding s_def [symmetric] by (simp add: e)
qed

subsection \<open>Reset\<close>

lemma resetForm_fields:
  "isAnalyzing (resetForm s) = False"
  "buttonMode (resetForm s) = Analysis"
  "websocket (resetForm s) = None"
  "effects (resetForm s) = effects s @ (case websocket s of None \<Rightarrow> [] | Some h \<Rightarrow> [WsClose h])"
  "sockets (resetForm s) = (case websocket s of None \<Rightarrow> sockets s | Some h \<Rightarrow> closeSocket h (sockets s))"
  "locationDisabled (resetForm s) = False"
  "selectAllDisabled (resetForm s) = False"
  "checkboxes (resetForm s) = map (\<lambda>cb. cb\<lparr>cbDisabled := False\<rparr>) (checkboxes s)"
  "locationValue (resetForm s) = locationValue s"
  "runDisabled (resetForm s) = (\<not> (trim (locationValue s) \<noteq> [] \<and> list_ex cbChecked (checkboxes s)))"
  "runListeners (resetForm s) = addEventListener RunAnalysis (removeEventListener ShowResults (runListeners s))"
  "timers (resetForm s) = timers s"
  "progressContainer (resetForm s) = None"
  "analysisProgressBar (resetForm s) = None"
  by (auto simp add: resetForm_def closeWebSocket_def updateRunAnalysisButton_def Let_def
        list_ex_iff split: option.splits)

lemma closeSocket_not_open: "h < length ss \<Longrightarrow> closeSocket h ss ! h \<noteq> OPEN"
  by (simp add: closeSocket_def)

text \<open>
  C5. When the submission call fails, by a rejected request or by a response whose status
  is outside 200..299, the controller is Idle afterwards, the error notification carries
  the reason, the channel the controller held is closed and dropped, the location field,
  the select-all button and every checkbox are enabled, the action button is bound to
  \<open>runAnalysis\<close> again and is enabled exactly when a run can be requested.
\<close>

theorem submission_failure_resets:
  assumes "r = Rejected reason \<or>
           (\<exists>status. r = Response status \<and> (status < 200 \<or> 299 < status)
              \<and> reason = ''HTTP error! status: '' @ decimal status)"
  shows "controllerState (fire (FetchSettled r) s) = Idle
       \<and> effects (fire (FetchSettled r) s) =
           effects s @ Notify (''Error starting analysis: '' @ reason) ''error''
             # (case websocket s of None \<Rightarrow> [] | Some h \<Rightarrow> [WsClose h])
       \<and> websocket (fire (FetchSettled r) s) = None
       \<and> (\<forall>h. websocket s = Some h \<and> h < length (sockets s)
             \<longrightarrow> sockets (fire (FetchSettled r) s) ! h \<noteq> OPEN)
       \<and> \<not> locationDisabled (fire (FetchSettled r) s)
       \<and> \<not> selectAllDisabled (fire (FetchSettled r) s)
       \<and> list_all (\<lambda>cb. \<not> cbDisabled cb) (checkboxes (fire (FetchSettled r) s))
       \<and> locationValue (fire (FetchSettled r) s) = locationValue s
       \<and> map cbChecked (checkboxes (fire (FetchSettled r) s)) = map cbChecked (checkboxes s)
       \<and> (runDisabled (fire (FetchSettled r) s) \<longleftrightarrow>
            \<not> (trim (locationValue s) \<noteq> [] \<and> list_ex cbChecked (checkboxes s)))
       \<and> RunAnalysis \<in> set (runListeners (fire (FetchSettled r) s))
       \<and> ShowResults \<notin> set (runListeners (fire (FetchSettled r) s))"
proof -
  define s0 where "s0 = showNotification (''Error starting analysis: '' @ reason) ''error''
                          (s\<lparr>awaitingFetch := awaitingFetch s - 1\<rparr>)"
  from assms have eq: "fire (FetchSettled r) s = resetForm s0"
    by (auto simp: fire_def startAnalysisFetched_def startAnalysisCatch_def s0_def)
  have s0: "websocket s0 = websocket s" "sockets s0 = sockets s"
    "effects s0 = effects s @ [Notify (''Error starting analysis: '' @ reason) ''error'']"
    "locationValue s0 = locationValue s" "checkboxes s0 = checkboxes s"
    by (simp_all add: s0_def showNotification_def)
  show ?thesis
    unfolding eq
    by (auto simp: resetForm_fields s0 controllerState_def closeSocket_not_open list_all_iff
          addEventListener_def removeEventListener_def o_def split: option.splits)
qed

theorem submission_failure_resets_witness:
  "controllerState (fire (FetchSettled (Response 500))
                      (fire ClickRun (fire (ChangeCheckbox 0) (init demoPage)))) = Idle
   \<and> effects (fire (FetchSettled (Response 500))
                 (fire ClickRun (fire (ChangeCheckbox 0) (init demoPage)))) =
       [WsOpen ''ws://localhost:8000/ws/session_17_k3x9q'',
        Fetch (ascii ''Narayanganj'') [''flood''] ''session_17_k3x9q'',
        Notify ''Error starting analysis: HTTP error! status: 500'' ''error'',
        WsClose 0]
   \<and> \<not> runDisabled (fire (FetchSettled (Response 500))
                       (fire ClickRun (fire (ChangeCheckbox 0) (init demoPage))))"
proof -
  define s where "s = fire ClickRun (fire (ChangeCheckbox 0) (init demoPage))"
  have d: "decimal 500 = ''500''"
    by code_simp
  have a: "Response 500 = Rejected ''HTTP error! status: 500'' \<or>
           (\<exists>status. Response 500 = Response status \<and> (status < 200 \<or> 299 < status)
              \<and> ''HTTP error! status: 500'' = ''HTTP error! status: '' @ decimal status)"
    by (simp add: d)
  have e: "effects s = [WsOpen ''ws://localhost:8000/ws/session_17_k3x9q'',
        Fetch (ascii ''Narayanganj'') [''flood''] ''session_17_k3x9q'']"
    unfolding s_def by code_simp
  have w: "websocket s = Some 0"
    unfolding s_def by code_simp
  have l: "trim (locationValue s) \<noteq> []" "list_ex cbChecked (checkboxes s)"
    unfolding s_def by code_simp+
  show ?thesis
    using submission_failure_resets [OF a, of s] e w l
    unfolding s_def [symmetric] by simp
qed

text \<open>
  C6 as stated does not hold: the identifier is generated once, when the page loads, and
  no function assigns \<open>sessionId\<close> again. A run that fails and the run started after it
  are submitted under the same identifier.
\<close>

theorem session_reused_counterexample:
  "map_option sessionsOf (run (init demoPage) (failedRun @ [ClickRun]))
     = Some [''session_17_k3x9q'', ''session_17_k3x9q'']"
  unfolding failedRun_def by code_simp

text \<open>
  C6, amended. In every state reached from a page load the session identifier is the one
  generated at that load, and every channel address, every submission body and every
  results address issued so far carries it.
\<close>

theorem session_identifier_fixed_per_page:
  assumes "run (init p) es = Some s"
  shows "sessionId s = generateSessionId (pNow p) (pRandom p) \<and> allTagged s"
proof -
  have sp: "samePage (init p) s" using assms by (rule samePage_run)
  have "sessionId (init p) = generateSessionId (pNow p) (pRandom p)"
    by (simp add: init_def handler_defs Let_def)
  with sp have id: "sessionId s = generateSessionId (pNow p) (pRandom p)"
    by (simp add: samePage_def)
  from assms have "list_all (taggedWith (init p)) (effects s)"
    by (rule tagged_reachable)
  then have "list_all (taggedWith s) (effects s)"
    by (simp add: samePage_taggedWith [OF sp] cong: list.pred_cong)
  with id show ?thesis by (simp add: allTagged_def)
qed

theorem session_identifier_fixed_per_page_witness:
  "map_option sessionId (run (init demoPage) (failedRun @ [ClickRun, KeyCtrlEnter]))
     = Some (generateSessionId 17 ''k3x9q'')
   \<and> map_option allTagged (run (init demoPage) (failedRun @ [ClickRun, KeyCtrlEnter])) = Some True
   \<and> map_option (length \<circ> effects) (run (init demoPage) (failedRun @ [ClickRun, KeyCtrlEnter]))
       = Some 6"
proof -
  have "run (init demoPage) (failedRun @ [ClickRun, KeyCtrlEnter]) \<noteq> None"
    unfolding failedRun_def by code_simp
  then obtain s where r: "run (init demoPage) (failedRun @ [ClickRun, KeyCtrlEnter]) = Some s"
    by blast
  have n: "map_option (length \<circ> effects) (run (init demoPage) (failedRun @ [ClickRun, KeyCtrlEnter]))
       = Some 6"
    unfolding failedRun_def by code_simp
  have p: "pNow demoPage = 17" "pRandom demoPage = ''k3x9q''"
    by (simp_all add: demoPage_def)
  from session_identifier_fixed_per_page [OF r] n show ?thesis
    by (simp add: r p)
qed

subsection \<open>Channel close and reconnection\<close>

text \<open>
  C2. In a state reached from a page load, a close event while the controller is Running
  appends exactly one timer, \<open>connectWebSocket\<close> after 2000 ms, and changes nothing
  else of the controller. Whenever that callback runs later, the channel it opens has the
  address built from the session identifier of the page load, the same address as every
  channel opened before. A close event in any other state leaves controller, document,
  timers and trace as they are.
\<close>

theorem close_while_running_schedules_reconnect:
  assumes "run (init p) es = Some s"
  shows "(controllerState s = Running \<longrightarrow>
            fire (WsClosed h) s =
              s\<lparr>sockets := (sockets s)[h := CLOSED],
                timers := timers s @ [(ConnectWebSocket, 2000)]\<rparr>
            \<and> (\<forall>es' t. run (fire (WsClosed h) s) es' = Some t \<longrightarrow>
                  effects (runCallback ConnectWebSocket t) = effects t @ [WsOpen (wsUrl (init p))])
            \<and> (\<forall>u. WsOpen u \<in> set (effects s) \<longrightarrow> u = wsUrl (init p)))
       \<and> (controllerState s \<noteq> Running \<longrightarrow>
            fire (WsClosed h) s = s\<lparr>sockets := (sockets s)[h := CLOSED]\<rparr>)"
proof (intro conjI impI allI)
  assume "controllerState s = Running"
  then show "fire (WsClosed h) s =
      s\<lparr>sockets := (sockets s)[h := CLOSED], timers := timers s @ [(ConnectWebSocket, 2000)]\<rparr>"
    by (simp add: controllerState_simps fire_def onclose_def)
next
  fix es' t
  assume "run (fire (WsClosed h) s) es' = Some t"
  then have "samePage (fire (WsClosed h) s) t" by (rule samePage_run)
  with samePage_fire have "samePage s t" by (rule samePage_trans)
  with samePage_run [OF assms] have "samePage (init p) t" by (rule samePage_trans)
  then have "wsUrl t = wsUrl (init p)" by (rule samePage_wsUrl)
  then show "effects (runCallback ConnectWebSocket t) = effects t @ [WsOpen (wsUrl (init p))]"
    by (simp add: runCallback_def connectWebSocket_def)
next
  fix u
  assume "WsOpen u \<in> set (effects s)"
  with tagged_reachable [OF assms] have "taggedWith (init p) (WsOpen u)"
    by (auto simp add: list_all_iff)
  then show "u = wsUrl (init p)" by simp
next
  assume "controllerState s \<noteq> Running"
  then show "fire (WsClosed h) s = s\<lparr>sockets := (sockets s)[h := CLOSED]\<rparr>"
    by (simp add: controllerState_simps fire_def onclose_def)
qed

theorem close_while_running_schedules_reconnect_witness:
  "map_option controllerState (run (init demoPage) [ChangeCheckbox 0, ClickRun]) = Some Running
   \<and> map_option (timers \<circ> fire (WsClosed 0)) (run (init demoPage) [ChangeCheckbox 0, ClickRun])
       = Some [(ConnectWebSocket, 2000)]
   \<and> map_option (effects \<circ> runCallback ConnectWebSocket)
        (run (init demoPage) [ChangeCheckbox 0, ClickRun, WsClosed 0])
       = Some [WsOpen ''ws://localhost:8000/ws/session_17_k3x9q'',
               Fetch (ascii ''Narayanganj'') [''flood''] ''session_17_k3x9q'',
               WsOpen ''ws://localhost:8000/ws/session_17_k3x9q'']
   \<and> map_option controllerState (run (init demoPage) failedRun) = Some Idle
   \<and> map_option timers (run (init demoPage) (failedRun @ [WsClosed 0])) = Some []
   \<and> map_option effects (run (init demoPage) (failedRun @ [WsClosed 0]))
       = map_option effects (run (init demoPage) failedRun)"
proof -
  have "run (init demoPage) [ChangeCheckbox 0, ClickRun] \<noteq> None"
    by code_simp
  then obtain s where r: "run (init demoPage) [ChangeCheckbox 0, ClickRun] = Some s"
    by blast
  have "run (init demoPage) failedRun \<noteq> None"
    unfolding failedRun_def by code_simp
  then obtain s0 where r0: "run (init demoPage) failedRun = Some s0"
    by blast
  have st: "map_option controllerState (run (init demoPage) [ChangeCheckbox 0, ClickRun]) = Some Running"
    by code_simp
  with r have running: "controllerState s = Running" by simp
  have en: "map_option (\<lambda>s. enabled s (WsClosed 0)) (run (init demoPage) [ChangeCheckbox 0, ClickRun])
              = Some True"
    by code_simp
  with r have r1: "run (fire (WsClosed 0) s) [] = Some (fire (WsClosed 0) s)" by simp
  have ts: "map_option timers (run (init demoPage) [ChangeCheckbox 0, ClickRun]) = Some []"
    by code_simp
  have es: "map_option effects (run (init demoPage) [ChangeCheckbox 0, ClickRun])
      = Some [WsOpen ''ws://localhost:8000/ws/session_17_k3x9q'',
              Fetch (ascii ''Narayanganj'') [''flood''] ''session_17_k3x9q'']"
    by code_simp
  have url: "wsUrl (init demoPage) = ''ws://localhost:8000/ws/session_17_k3x9q''"
    by code_simp
  have st0: "map_option controllerState (run (init demoPage) failedRun) = Some Idle"
    unfolding failedRun_def by code_simp
  with r0 have idle: "controllerState s0 \<noteq> Running" by simp
  have t0: "map_option timers (run (init demoPage) failedRun) = Some []"
    unfolding failedRun_def by code_simp
  have en0: "map_option (\<lambda>s. enabled s (WsClosed 0)) (run (init demoPage) failedRun) = Some True"
    unfolding failedRun_def by code_simp
  note c = close_while_running_schedules_reconnect [OF r, of 0]
  note c0 = close_while_running_schedules_reconnect [OF r0, of 0]
  from c running have eq: "fire (WsClosed 0) s =
      s\<lparr>sockets := (sockets s)[0 := CLOSED], timers := timers s @ [(ConnectWebSocket, 2000)]\<rparr>"
    by blast
  from c running r1 have op: "effects (runCallback ConnectWebSocket (fire (WsClosed 0) s))
      = effects (fire (WsClosed 0) s) @ [WsOpen (wsUrl (init demoPage))]"
    by blast
  from c0 idle have eq0: "fire (WsClosed 0) s0 = s0\<lparr>sockets := (sockets s0)[0 := CLOSED]\<rparr>"
    by blast
  from r en have r2: "run (init demoPage) [ChangeCheckbox 0, ClickRun, WsClosed 0]
      = Some (fire (WsClosed 0) s)"
    by (simp split: if_splits)
  have app: "run a (xs @ [e]) = (case run a xs of None \<Rightarrow> None
      | Some b \<Rightarrow> if enabled b e then Some (fire e b) else None)" for a xs e
    by (induction xs arbitrary: a) simp_all
  from r0 en0 have r3: "run (init demoPage) (failedRun @ [WsClosed 0]) = Some (fire (WsClosed 0) s0)"
    by (simp add: app)
  have c2: "timers (fire (WsClosed 0) s) = [(ConnectWebSocket, 2000)]"
    using eq ts [unfolded r] by simp
  have c3: "effects (runCallback ConnectWebSocket (fire (WsClosed 0) s))
      = [WsOpen ''ws://localhost:8000/ws/session_17_k3x9q'',
         Fetch (ascii ''Narayanganj'') [''flood''] ''session_17_k3x9q'',
         WsOpen ''ws://localhost:8000/ws/session_17_k3x9q'']"
    using op eq es [unfolded r] url by simp
  have c5: "timers (fire (WsClosed 0) s0) = []" "effects (fire (WsClosed 0) s0) = effects s0"
    using eq0 t0 [unfolded r0] by simp_all
  show ?thesis
    unfolding r r2 r3 r0 using running c2 c3 st0 [unfolded r0] c5 by simp
qed

text \<open>
  C1 does not hold of the script. \<open>onclose\<close> tests \<open>isAnalyzing\<close> when the channel
  closes, not when the timer fires, and \<open>resetForm\<close> clears no timer. In the run below the
  channel closes while the run is in progress, the submission then fails and resets the
  controller to Idle with the timer still pending; when the timer fires, a channel is
  opened although no new run was started, and the controller stays Idle holding it.
\<close>

theorem stale_timer_reopens_channel:
  "map_option controllerState (run (init demoPage) closedThenFailedRun) = Some Idle
   \<and> map_option timers (run (init demoPage) closedThenFailedRun) = Some [(ConnectWebSocket, 2000)]
   \<and> map_option effects (run (init demoPage) closedThenFailedRun)
       = Some [WsOpen ''ws://localhost:8000/ws/session_17_k3x9q'',
               Fetch (ascii ''Narayanganj'') [''flood''] ''session_17_k3x9q'',
               Notify ''Error starting analysis: HTTP error! status: 500'' ''error'',
               WsClose 0]
   \<and> map_option controllerState (run (init demoPage) (closedThenFailedRun @ [TimerFired 0]))
       = Some Idle
   \<and> map_option effects (run (init demoPage) (closedThenFailedRun @ [TimerFired 0]))
       = Some [WsOpen ''ws://localhost:8000/ws/session_17_k3x9q'',
               Fetch (ascii ''Narayanganj'') [''flood''] ''session_17_k3x9q'',
               Notify ''Error starting analysis: HTTP error! status: 500'' ''error'',
               WsClose 0,
               WsOpen ''ws://localhost:8000/ws/session_17_k3x9q'']
   \<and> map_option sockets (run (init demoPage) (closedThenFailedRun @ [TimerFired 0]))
       = Some [CLOSED, OPEN]
   \<and> map_option websocket (run (init demoPage) (closedThenFailedRun @ [TimerFired 0]))
       = Some (Some 1)"
  unfolding closedThenFailedRun_def by code_simp

subsection \<open>Completion of an item\<close>

lemma currentProgressItem_callListener:
  "currentProgressItem (callListener l s) = currentProgressItem s"
  by (cases l) (simp_all add: handler_defs Let_def)

lemma currentProgressItem_fold:
  "currentProgressItem (fold callListener ls s) = currentProgressItem s"
  by (induction ls arbitrary: s) (simp_all add: currentProgressItem_callListener)

lemma currentProgressItem_resetForm: "currentProgressItem (resetForm s) = currentProgressItem s"
  by (simp add: resetForm_def closeWebSocket_def updateRunAnalysisButton_def Let_def split: option.splits)

lemma currentProgressItem_handle:
  "handleWebSocketMessage m now s = Inr t \<Longrightarrow>
   currentProgressItem t = None \<longleftrightarrow> currentProgressItem s = None \<and> mType m \<noteq> ''analysis_start''"
  by (auto simp add: handleWebSocketMessage_def showAnalysisProgress_def createProgressContainer_def
       markProgressAsCompleted_def updateProgressBar_def handleAnalysisComplete_def closeWebSocket_def
       showNotification_def currentProgressItem_resetForm Let_def
       split: option.splits if_splits)

lemma handle_start_Inr:
  "mType m = ''analysis_start'' \<Longrightarrow> \<exists>t. handleWebSocketMessage m now s = Inr t"
  by (simp add: handleWebSocketMessage_def split: prod.splits)

lemma currentProgressItem_fire:
  "currentProgressItem (fire e s) = None \<longleftrightarrow> currentProgressItem s = None \<and> \<not> isStartEvent e"
proof (cases e)
  case ClickRun
  then show ?thesis by (simp add: fire_def currentProgressItem_fold)
next
  case (TimerFired i)
  then show ?thesis
    by (cases "fst (timers s ! i)") (simp_all add: fire_def handler_defs)
next
  case (WsMessage h m now)
  show ?thesis
  proof (cases "handleWebSocketMessage m now s")
    case (Inl err)
    with handle_start_Inr [of m now s] have "mType m \<noteq> ''analysis_start''" by auto
    with Inl WsMessage show ?thesis by (simp add: fire_def)
  next
    case (Inr t)
    with currentProgressItem_handle [OF Inr] WsMessage show ?thesis by (simp add: fire_def)
  qed
next
  case (FetchSettled r)
  then show ?thesis
    by (cases r) (simp_all add: fire_def startAnalysisFetched_def startAnalysisCatch_def
          currentProgressItem_resetForm showNotification_def)
next
  case (JsonSettled r)
  then show ?thesis
    by (cases r) (simp_all add: fire_def startAnalysisParsed_def startAnalysisCatch_def
          currentProgressItem_resetForm showNotification_def)
next
  case (KeyCtrlEnter)
  then show ?thesis
    using currentProgressItem_callListener [of RunAnalysis s]
      currentProgressItem_callListener [of ShowResults s]
    by (simp add: fire_def callListener_def)
qed (simp_all add: fire_def updateRunAnalysisButton_def updateSelectAllButton_def
       toggleSelectAll_def onclose_def Let_def)

lemma currentProgressItem_run:
  "run s es = Some t \<Longrightarrow>
   currentProgressItem t = None \<longleftrightarrow> currentProgressItem s = None \<and> \<not> list_ex isStartEvent es"
proof (induction es arbitrary: s)
  case Nil
  then show ?case by simp
next
  case (Cons e es)
  then have "run (fire e s) es = Some t" by (simp split: if_splits)
  from Cons.IH [OF this] show ?case
    by (auto simp add: currentProgressItem_fire)
qed

text \<open>
  C10. In a state reached from a page load, handling an \<open>analysis_complete\<close> message
  raises a TypeError exactly when no \<open>analysis_start\<close> message was handled before:
  \<open>currentProgressItem\<close> is then still undefined and \<open>markProgressAsCompleted\<close>
  assigns to a property of it. After an \<open>analysis_start\<close> the handler returns, having
  rewritten the entry the controller holds.
\<close>

theorem completion_before_start_faults:
  assumes "run (init p) es = Some s"
    and "mType m = ''analysis_complete''"
  shows "(\<not> list_ex isStartEvent es \<longrightarrow> handleWebSocketMessage m now s = Inl TypeError)
       \<and> (list_ex isStartEvent es \<longrightarrow>
            (\<exists>r. currentProgressItem s = Some r
               \<and> handleWebSocketMessage m now s =
                   Inr (s\<lparr>items := (items s)[r := (items s ! r)
                          \<lparr>piIcon := ''check'', piText := mMessage m, piTime := now\<rparr>]\<rparr>)))"
proof -
  have "currentProgressItem (init p) = None"
    by (simp add: init_def handler_defs Let_def)
  with currentProgressItem_run [OF assms(1)]
  have iff: "currentProgressItem s = None \<longleftrightarrow> \<not> list_ex isStartEvent es"
    by simp
  from assms(2)
  have h: "handleWebSocketMessage m now s
             = markProgressAsCompleted (mMessage m) (currentProgressItem s) now s"
    by (simp add: handleWebSocketMessage_def)
  have icon: "getProgressIcon ''success'' = ''check''"
    by (simp add: getProgressIcon_def)
  show ?thesis
  proof (cases "currentProgressItem s")
    case None
    with h have "handleWebSocketMessage m now s = Inl TypeError"
      by (simp only: markProgressAsCompleted_def option.case)
    moreover from None iff have "\<not> list_ex isStartEvent es"
      by simp
    ultimately show ?thesis by simp
  next
    case (Some r)
    with h have "handleWebSocketMessage m now s =
        Inr (s\<lparr>items := (items s)[r := (items s ! r)
               \<lparr>piIcon := ''check'', piText := mMessage m, piTime := now\<rparr>]\<rparr>)"
      by (simp only: markProgressAsCompleted_def option.case icon)
    with Some have "\<exists>r. currentProgressItem s = Some r
               \<and> handleWebSocketMessage m now s =
                   Inr (s\<lparr>items := (items s)[r := (items s ! r)
                          \<lparr>piIcon := ''check'', piText := mMessage m, piTime := now\<rparr>]\<rparr>)"
      by (intro exI [of _ r] conjI)
    moreover from Some iff have "list_ex isStartEvent es"
      by simp
    ultimately show ?thesis by (intro conjI impI) (simp_all only: not_True_eq_False)
  qed
qed

theorem completion_before_start_faults_witness:
  "\<not> list_ex isStartEvent [ChangeCheckbox 0, ClickRun]
   \<and> map_option (handleWebSocketMessage (demoMessage ''analysis_complete'' ''done'') ''10:01'')
        (run (init demoPage) [ChangeCheckbox 0, ClickRun]) = Some (Inl TypeError)
   \<and> list_ex isStartEvent
        [ChangeCheckbox 0, ClickRun, WsMessage 0 (demoMessage ''analysis_start'' ''flood'') ''10:00'']
   \<and> map_option (isl \<circ> handleWebSocketMessage (demoMessage ''analysis_complete'' ''done'') ''10:01'')
        (run (init demoPage)
           [ChangeCheckbox 0, ClickRun, WsMessage 0 (demoMessage ''analysis_start'' ''flood'') ''10:00''])
       = Some False"
proof -
  let ?c = "demoMessage ''analysis_complete'' ''done''"
  let ?es = "[ChangeCheckbox 0, ClickRun, WsMessage 0 (demoMessage ''analysis_start'' ''flood'') ''10:00'']"
  have ty: "mType ?c = ''analysis_complete''"
    by (simp add: demoMessage_def)
  have "run (init demoPage) [ChangeCheckbox 0, ClickRun] \<noteq> None"
    by code_simp
  then obtain s where r: "run (init demoPage) [ChangeCheckbox 0, ClickRun] = Some s"
    by blast
  have "run (init demoPage) ?es \<noteq> None"
    by code_simp
  then obtain t where r': "run (init demoPage) ?es = Some t"
    by blast
  have n: "\<not> list_ex isStartEvent [ChangeCheckbox 0, ClickRun]"
    by simp
  have y: "list_ex isStartEvent ?es"
    by (simp add: demoMessage_def)
  have c1: "handleWebSocketMessage ?c ''10:01'' s = Inl TypeError"
    by (rule completion_before_start_faults [OF r ty, THEN conjunct1, THEN mp, OF n])
  from completion_before_start_faults [OF r' ty, THEN conjunct2, THEN mp, OF y, of "''10:01''"]
  obtain u where "handleWebSocketMessage ?c ''10:01'' t = Inr u"
    by (elim exE conjE)
  then have c2: "\<not> isl (handleWebSocketMessage ?c ''10:01'' t)"
    by simp
  show ?thesis
    unfolding r r' using n y c1 c2 by simp
qed

subsection \<open>The end of a run\<close>



















subsection \<open>The progress log\<close>




























end
